theory Spec2Isabelle
  imports Main "HOL-Library.Multiset"
begin

section \<open>Values, exceptions and dictionaries\<close>

text \<open>
  The programs exchange decoded JSON bodies. A decoded body is a Python value built from
  \<open>None\<close>, booleans, numbers, strings, lists and dictionaries with string keys. Numbers
  are modelled as integers; a timestamp (\<open>time.time()\<close>) is an integral number of clock
  ticks. \<open>JObj\<close> carries the items of the decoded dictionary in insertion order.
\<close>

datatype json =
    JNull
  | JBool bool
  | JInt int
  | JStr string
  | JArr "json list"
  | JObj "(string \<times> json) list"

text \<open>The exceptions that the modelled code can raise.\<close>

datatype error =
    KeyError string
  | NameError string
  | TypeError
  | AttributeError
  | ValueError

text \<open>
  What \<open>requests.get(url, timeout=t)\<close> followed by \<open>response.json()\<close> can observe:
  a response with its status code and its decoded body (\<open>None\<close> when the body does not
  parse, so that \<open>response.json()\<close> raises), an unreachable host (connection error), or
  a timeout, which may have received part of a response before the deadline.
\<close>

datatype http_outcome =
    Response int "json option"
  | Unreachable
  | Timeout string

type_synonym network = "string \<Rightarrow> http_outcome"

text \<open>
  How \<open>requests.get(url, timeout=t)\<close> arrives at its outcome. The timeout is not a limit
  on the whole request: the call raises a timeout when the connection, or the next part
  of the response, has not arrived \<open>t\<close> ticks after it started to wait for it. A host is
  either down, failing the connection attempt after some wait, or up: it accepts the
  connection after a wait and sends the response in parts, each after a wait of its own;
  the status code and the decoded body (\<open>None\<close> when it does not parse) are those of the
  complete response. The result is the outcome and the time the call took; a timeout
  carries the parts received so far.
\<close>

datatype server =
    Down nat
  | Up nat "(nat \<times> string) list" int "json option"

fun receive ::
  "nat \<Rightarrow> (nat \<times> string) list \<Rightarrow> nat \<Rightarrow> string \<Rightarrow> int \<Rightarrow> json option \<Rightarrow> http_outcome \<times> nat" where
  "receive timeout [] elapsed received code body = (Response code body, elapsed)"
| "receive timeout ((w, part) # parts) elapsed received code body =
     (if timeout < w then (Timeout received, elapsed + timeout)
      else receive timeout parts (elapsed + w) (received @ part) code body)"

fun requests_get :: "nat \<Rightarrow> server \<Rightarrow> http_outcome \<times> nat" where
  "requests_get timeout (Down w) =
     (if timeout < w then (Timeout [], timeout) else (Unreachable, w))"
| "requests_get timeout (Up w parts code body) =
     (if timeout < w then (Timeout [], timeout) else receive timeout parts w [] code body)"

text \<open>
  The waits of a request, in order, and whether one of them exceeds the timeout.
\<close>

fun waits :: "server \<Rightarrow> nat list" where
  "waits (Down w) = [w]"
| "waits (Up w parts code body) = w # map fst parts"

definition timed_out :: "nat \<Rightarrow> server \<Rightarrow> bool" where
  "timed_out timeout srv = (\<exists>w \<in> set (waits srv). timeout < w)"

text \<open>
  Sequencing of computations that may raise: the first exception ends the evaluation.
\<close>

definition and_then :: "error + 'a \<Rightarrow> ('a \<Rightarrow> error + 'b) \<Rightarrow> error + 'b" where
  "and_then r f = (case r of Inl e \<Rightarrow> Inl e | Inr v \<Rightarrow> f v)"

text \<open>
  A Python dictionary with string keys, as an association list in insertion order.
  \<open>d[k]\<close> raises \<open>KeyError\<close> on a missing key; \<open>del d[k]\<close> removes the item.
\<close>

type_synonym 'v strdict = "(string \<times> 'v) list"

definition subscript :: "'v strdict \<Rightarrow> string \<Rightarrow> error + 'v" where
  "subscript d k = (case map_of d k of None \<Rightarrow> Inl (KeyError k) | Some v \<Rightarrow> Inr v)"

definition delitem :: "'v strdict \<Rightarrow> string \<Rightarrow> 'v strdict" where
  "delitem d k = filter (\<lambda>(k', v). k' \<noteq> k) d"

text \<open>
  Dictionaries keyed by decoded values (\<open>device_id\<close> comes out of a JSON body). Lists and
  dictionaries are unhashable and cannot be keys. Python compares keys with \<open>==\<close>, under
  which \<open>True == 1\<close> and \<open>False == 0\<close>; \<open>hkey\<close> picks one representative of each class.
  The stored key object is the one inserted first.
\<close>

fun hashable :: "json \<Rightarrow> bool" where
  "hashable (JArr xs) = False"
| "hashable (JObj kv) = False"
| "hashable v = True"

fun hkey :: "json \<Rightarrow> json" where
  "hkey (JBool b) = JInt (if b then 1 else 0)"
| "hkey v = v"

definition py_eq :: "json \<Rightarrow> json \<Rightarrow> bool" where
  "py_eq a b = (hkey a = hkey b)"

type_synonym 'v pydict = "(json \<times> 'v) list"

fun dict_get :: "'v pydict \<Rightarrow> json \<Rightarrow> 'v option" where
  "dict_get [] k = None"
| "dict_get ((k', v) # d) k = (if py_eq k' k then Some v else dict_get d k)"

fun dict_set :: "'v pydict \<Rightarrow> json \<Rightarrow> 'v \<Rightarrow> 'v pydict" where
  "dict_set [] k v = [(k, v)]"
| "dict_set ((k', v') # d) k v =
     (if py_eq k' k then (k', v) # d else (k', v') # dict_set d k v)"

definition keys :: "'v pydict \<Rightarrow> json list" where
  "keys d = map (hkey \<circ> fst) d"

section \<open>scan\_network.py: the active scanner\<close>

text \<open>
  The \<open>in\<close> operator with a string on the left, and \<open>data.get(key, default)\<close>, on an
  arbitrary decoded body: \<open>in\<close> is key membership on a dictionary, element membership
  on a list, a substring test on a string, and a \<open>TypeError\<close> on anything else;
  only a dictionary has \<open>get\<close>.
\<close>

fun is_substring :: "string \<Rightarrow> string \<Rightarrow> bool" where
  "is_substring k [] = (k = [])"
| "is_substring k (c # s) = (take (length k) (c # s) = k \<or> is_substring k s)"

fun py_in :: "string \<Rightarrow> json \<Rightarrow> error + bool" where
  "py_in k (JObj kv) = Inr (k \<in> set (map fst kv))"
| "py_in k (JArr xs) = Inr (JStr k \<in> set xs)"
| "py_in k (JStr s) = Inr (is_substring k s)"
| "py_in k v = Inl TypeError"

fun py_get :: "json \<Rightarrow> string \<Rightarrow> json \<Rightarrow> error + json" where
  "py_get (JObj kv) k dflt = Inr (case map_of kv k of None \<Rightarrow> dflt | Some v \<Rightarrow> v)"
| "py_get v k dflt = Inl AttributeError"

text \<open>The dictionary that \<open>check_device\<close> returns for a device.\<close>

record candidate =
  ip :: string
  device_id :: json
  device_name :: json
  battery :: json
  gps :: json
  recording :: json
  network_status :: json

text \<open>
  \<open>data.get(outer, {}).get(inner, default)\<close>: the second \<open>get\<close> raises when the value
  stored under \<open>outer\<close> is not a dictionary.
\<close>

definition get_nested :: "json \<Rightarrow> string \<Rightarrow> string \<Rightarrow> json \<Rightarrow> error + json" where
  "get_nested data outer inner dflt =
     and_then (py_get data outer (JObj [])) (\<lambda>sub. py_get sub inner dflt)"

text \<open>
  The test \<open>'device_id' in data or 'device_name' in data\<close>; \<open>or\<close> evaluates its right
  operand only when the left one is false.
\<close>

definition has_identity :: "json \<Rightarrow> error + bool" where
  "has_identity data =
     (case py_in ''device_id'' data of
        Inl e \<Rightarrow> Inl e
      | Inr True \<Rightarrow> Inr True
      | Inr False \<Rightarrow> py_in ''device_name'' data)"

text \<open>The dictionary literal of \<open>check_device\<close>, its items evaluated in order.\<close>

definition device_dict :: "string \<Rightarrow> json \<Rightarrow> error + candidate" where
  "device_dict addr data =
     and_then (py_get data ''device_id'' (JStr ''unknown'')) (\<lambda>did.
     and_then (py_get data ''device_name'' (JStr ''Unknown Device'')) (\<lambda>nm.
     and_then (get_nested data ''battery'' ''level'' (JStr ''N/A'')) (\<lambda>bat.
     and_then (get_nested data ''gps'' ''fix'' (JStr ''unknown'')) (\<lambda>fx.
     and_then (py_get data ''recording'' (JBool False)) (\<lambda>rec.
     and_then (py_get data ''network_status'' (JStr ''unknown'')) (\<lambda>ns.
       Inr \<lparr>ip = addr, device_id = did, device_name = nm, battery = bat, gps = fx,
            recording = rec, network_status = ns\<rparr>))))))"

text \<open>
  \<open>check_device(ip)\<close>: every exception raised inside the \<open>try\<close> block (by the request, by
  \<open>response.json()\<close>, by \<open>in\<close> or by \<open>get\<close>) is swallowed by the bare \<open>except\<close>, and the
  function returns \<open>None\<close>.
\<close>

definition health_url :: "string \<Rightarrow> string" where
  "health_url addr = ''http://'' @ addr @ '':5000/api/health''"

definition check_device :: "network \<Rightarrow> string \<Rightarrow> candidate option" where
  "check_device net addr =
     (case net (health_url addr) of
        Response code body \<Rightarrow>
          if code = 200 then
            (case body of
               None \<Rightarrow> None
             | Some data \<Rightarrow>
                 (case has_identity data of
                    Inl e \<Rightarrow> None
                  | Inr False \<Rightarrow> None
                  | Inr True \<Rightarrow>
                      (case device_dict addr data of Inl e \<Rightarrow> None | Inr c \<Rightarrow> Some c)))
          else None
      | Unreachable \<Rightarrow> None
      | Timeout partial \<Rightarrow> None)"

text \<open>
  The value stored under \<open>k\<close> in a decoded body is a dictionary, or \<open>k\<close> is absent: the
  bodies on which the nested \<open>get\<close> of \<open>check_device\<close> does not raise.
\<close>

definition dict_or_absent :: "(string \<times> json) list \<Rightarrow> string \<Rightarrow> bool" where
  "dict_or_absent kv k =
     (case map_of kv k of None \<Rightarrow> True | Some (JObj sub) \<Rightarrow> True | Some v \<Rightarrow> False)"

text \<open>
  \<open>scan_network\<close>: one \<open>check_device\<close> task per host address of the range is submitted
  to a pool of \<open>max_workers\<close> threads (\<open>ThreadPoolExecutor\<close> raises \<open>ValueError\<close> for a
  pool size that is not positive); the results are appended to \<open>devices\<close> in the order
  in which the tasks complete. \<open>hosts\<close> is the list of host addresses of the range
  (\<open>network.hosts()\<close>) and \<open>completed\<close> the order of completion (\<open>as_completed\<close>), a
  permutation of \<open>hosts\<close> chosen by the scheduler.
\<close>

fun collect :: "network \<Rightarrow> string list \<Rightarrow> candidate list \<Rightarrow> candidate list" where
  "collect net [] devices = devices"
| "collect net (a # completed) devices =
     (case check_device net a of
        None \<Rightarrow> collect net completed devices
      | Some result \<Rightarrow> collect net completed (devices @ [result]))"

definition scan_network :: "network \<Rightarrow> string list \<Rightarrow> int \<Rightarrow> string list \<Rightarrow> error + candidate list" where
  "scan_network net hosts max_workers completed =
     (if max_workers \<le> 0 then Inl ValueError else Inr (collect net completed []))"

section \<open>discover\_device.py: the announcement listener\<close>

text \<open>
  \<open>EweGoListener.devices\<close> maps a service name to the dictionary of decoded properties
  stored by \<open>add_service\<close>. \<open>remove_service(zc, type_, name)\<close> deletes the item of a
  known name and does nothing for an unknown one.
\<close>

type_synonym listener = "(json strdict) strdict"

definition remove_service :: "listener \<Rightarrow> string \<Rightarrow> listener" where
  "remove_service devices name =
     (if name \<in> set (map fst devices) then delitem devices name else devices)"

section \<open>dashboard\_app.py: directory, poller and routes\<close>

text \<open>
  The module globals: \<open>discovered_devices\<close> maps a device identifier to the dictionary
  with the items \<open>ip\<close>, \<open>url\<close> and \<open>device_name\<close>; \<open>device_health_data\<close> maps a device
  identifier to the dictionary written by the poller. \<open>recording_state\<close> is a global
  that the module never binds at import time: \<open>None\<close> stands for the unbound name.
\<close>

record device_info =
  info_ip :: string
  info_url :: string
  info_device_name :: json

record dashboard =
  discovered_devices :: "device_info pydict"
  device_health_data :: "(json strdict) pydict"
  recording_state :: "bool option"

text \<open>
  The body of \<open>for device in devices\<close> in \<open>scan_for_devices\<close>. Storing under an
  unhashable \<open>device_id\<close> raises \<open>TypeError\<close>; the exception leaves the loop, is caught
  by \<open>except Exception\<close> of the caller and printed, and the dictionary stays as it was
  updated so far.
\<close>

fun publish :: "candidate list \<Rightarrow> device_info pydict \<Rightarrow> device_info pydict" where
  "publish [] d = d"
| "publish (device # devices) d =
     (if hashable (device_id device) then
        publish devices
          (dict_set d (device_id device)
             \<lparr>info_ip = ip device,
              info_url = ''http://'' @ ip device @ '':5000'',
              info_device_name = device_name device\<rparr>)
      else d)"

text \<open>
  One iteration of the \<open>while True\<close> loop of \<open>scan_for_devices\<close>: scan with a pool of 50
  workers, then, under the lock, clear the directory and store every device found.
  An exception of the scan is caught before the directory is touched.
\<close>

definition scan_for_devices_step ::
  "network \<Rightarrow> string list \<Rightarrow> string list \<Rightarrow> dashboard \<Rightarrow> dashboard" where
  "scan_for_devices_step net hosts completed s =
     (case scan_network net hosts 50 completed of
        Inl e \<Rightarrow> s
      | Inr devices \<Rightarrow> s\<lparr>discovered_devices := publish devices []\<rparr>)"

text \<open>The URL of the health endpoint as \<open>poll_device_health\<close> builds it.\<close>

definition poll_url :: "device_info \<Rightarrow> string" where
  "poll_url info = info_url info @ ''/api/health''"

text \<open>
  The dictionary that \<open>poll_device_health\<close> stores for one device; \<open>t\<close> is the value of
  \<open>time.time()\<close> at the write.
\<close>

definition observation :: "string \<Rightarrow> json \<Rightarrow> nat \<Rightarrow> json strdict" where
  "observation status data t =
     [(''status'', JStr status), (''data'', data), (''last_updated'', JInt (int t))]"

text \<open>
  The body of \<open>for device_id, device_info in devices_to_poll.items()\<close>. The clock is
  threaded through the loop: the request to \<open>url\<close> returns or raises after
  \<open>duration url\<close> ticks, and the observation is stamped when it is written. A body that
  does not parse makes \<open>response.json()\<close> raise inside the \<open>try\<close> block.
\<close>

fun poll_device ::
  "network \<Rightarrow> (string \<Rightarrow> nat) \<Rightarrow> json \<times> device_info \<Rightarrow>
   nat \<times> (json strdict) pydict \<Rightarrow> nat \<times> (json strdict) pydict" where
  "poll_device net duration (did, info) (now, health) =
     (let url = poll_url info;
          t = now + duration url
      in case net url of
           Response code body \<Rightarrow>
             if code = 200 then
               (case body of
                  Some data \<Rightarrow> (t, dict_set health did (observation ''online'' data t))
                | None \<Rightarrow> (t, dict_set health did (observation ''offline'' JNull t)))
             else (t, dict_set health did (observation ''error'' JNull t))
         | Unreachable \<Rightarrow> (t, dict_set health did (observation ''offline'' JNull t))
         | Timeout partial \<Rightarrow> (t, dict_set health did (observation ''offline'' JNull t)))"

text \<open>
  One iteration of the \<open>while True\<close> loop of \<open>poll_device_health\<close>, started at clock
  \<open>now\<close>: a snapshot of the directory is taken, then the devices are polled one after
  the other in the order of the snapshot. The result is the clock after the last
  request together with the new state.
\<close>

definition poll_device_health_step ::
  "network \<Rightarrow> (string \<Rightarrow> nat) \<Rightarrow> nat \<Rightarrow> dashboard \<Rightarrow> nat \<times> dashboard" where
  "poll_device_health_step net duration now s =
     (let devices_to_poll = discovered_devices s;
          (t, health) = fold (poll_device net duration) devices_to_poll (now, device_health_data s)
      in (t, s\<lparr>device_health_data := health\<rparr>))"

text \<open>
  The time taken by the requests of a poll cycle over \<open>devices\<close>, one after the other.
\<close>

definition total_duration :: "(string \<Rightarrow> nat) \<Rightarrow> device_info pydict \<Rightarrow> nat" where
  "total_duration duration devices = sum_list (map (\<lambda>(did, info). duration (poll_url info)) devices)"

text \<open>
  The requests of the poller are made with \<open>timeout=3\<close>, three seconds in ticks of one
  millisecond: the outcome and the duration of the probe of \<open>url\<close> when the hosts behave
  as \<open>servers\<close> says, and the observation that one poll of a device leaves for it.
\<close>

definition poll_timeout :: nat where
  "poll_timeout = 3000"

definition probe_outcome :: "(string \<Rightarrow> server) \<Rightarrow> network" where
  "probe_outcome servers url = fst (requests_get poll_timeout (servers url))"

definition probe_duration :: "(string \<Rightarrow> server) \<Rightarrow> string \<Rightarrow> nat" where
  "probe_duration servers url = snd (requests_get poll_timeout (servers url))"

definition recorded ::
  "(string \<Rightarrow> server) \<Rightarrow> json \<Rightarrow> device_info \<Rightarrow> nat \<Rightarrow> (json strdict) pydict \<Rightarrow>
   json strdict option" where
  "recorded servers did info now health =
     dict_get (snd (poll_device (probe_outcome servers) (probe_duration servers)
                      (did, info) (now, health))) did"

text \<open>
  \<open>get_devices\<close>: the default of \<open>device_health_data.get\<close>, the entry appended for one
  device (each subscript of \<open>health\<close> raises \<open>KeyError\<close> on a missing key), the loop over
  the directory and the response body.
\<close>

definition default_health :: "json strdict" where
  "default_health = [(''status'', JStr ''unknown''), (''data'', JNull), (''last_seen'', JInt 0)]"

fun device_entry :: "(json strdict) pydict \<Rightarrow> json \<times> device_info \<Rightarrow> error + json" where
  "device_entry health_data (did, info) =
     (let health = (case dict_get health_data did of None \<Rightarrow> default_health | Some h \<Rightarrow> h)
      in and_then (subscript health ''status'') (\<lambda>st.
         and_then (subscript health ''data'') (\<lambda>da.
         and_then (subscript health ''last_seen'') (\<lambda>ls.
           Inr (JObj [(''device_id'', did),
                      (''device_name'', info_device_name info),
                      (''ip'', JStr (info_ip info)),
                      (''url'', JStr (info_url info)),
                      (''status'', st),
                      (''health'', da),
                      (''last_seen'', ls)])))))"

fun devices_list ::
  "(json strdict) pydict \<Rightarrow> device_info pydict \<Rightarrow> json list \<Rightarrow> error + json list" where
  "devices_list health_data [] acc = Inr acc"
| "devices_list health_data (item # items) acc =
     (case device_entry health_data item of
        Inl e \<Rightarrow> Inl e
      | Inr entry \<Rightarrow> devices_list health_data items (acc @ [entry]))"

definition get_devices :: "dashboard \<Rightarrow> error + json" where
  "get_devices s =
     (case devices_list (device_health_data s) (discovered_devices s) [] of
        Inl e \<Rightarrow> Inl e
      | Inr entries \<Rightarrow>
          Inr (JObj [(''devices'', JArr entries), (''count'', JInt (int (length entries)))]))"

text \<open>
  \<open>toggle_recording(device_id)\<close>, with the identifier taken from the request path:
  \<open>recording_state = not recording_state\<close> reads the
  global first, which raises \<open>NameError\<close> while the name is unbound; otherwise the flag
  is negated and reported. The argument \<open>device_id\<close> is not used.
\<close>

definition toggle_recording :: "string \<Rightarrow> dashboard \<Rightarrow> (error + json) \<times> dashboard" where
  "toggle_recording did s =
     (case recording_state s of
        None \<Rightarrow> (Inl (NameError ''recording_state''), s)
      | Some b \<Rightarrow>
          (Inr (JObj [(''recording'', JBool (\<not> b)),
                      (''message'', JStr (if \<not> b then ''Recording started''
                                          else ''Recording stopped''))]),
           s\<lparr>recording_state := Some (\<not> b)\<rparr>))"

section \<open>Concrete scenarios\<close>

text \<open>
  A device at \<open>10.0.0.5\<close> that answers the health request with the body
  \<open>{"device_id": "pi-01", "battery": 72}\<close>; every other address is unreachable.
\<close>

definition pi01_body :: json where
  "pi01_body = JObj [(''device_id'', JStr ''pi-01''), (''battery'', JInt 72)]"

definition pi01_net :: network where
  "pi01_net url =
     (if url = ''http://10.0.0.5:5000/api/health'' then Response 200 (Some pi01_body)
      else Unreachable)"

text \<open>A network on which nothing answers.\<close>

definition silent_net :: network where
  "silent_net url = Unreachable"

text \<open>
  A fleet whose devices report the battery as a dictionary: \<open>pi-01\<close> at \<open>10.0.0.5\<close>
  and \<open>pi-02\<close> at \<open>10.0.0.9\<close>.
\<close>

definition fleet_net :: network where
  "fleet_net url =
     (if url = ''http://10.0.0.5:5000/api/health'' then
        Response 200 (Some (JObj [(''device_id'', JStr ''pi-01''),
                                  (''battery'', JObj [(''level'', JInt 72)])]))
      else if url = ''http://10.0.0.9:5000/api/health'' then
        Response 200 (Some (JObj [(''device_id'', JStr ''pi-02'')]))
      else Unreachable)"

text \<open>Directory entries as \<open>scan_for_devices\<close> stores them, and directory states.\<close>

definition pi01_info :: device_info where
  "pi01_info = \<lparr>info_ip = ''10.0.0.5'', info_url = ''http://10.0.0.5:5000'',
                 info_device_name = JStr ''Unknown Device''\<rparr>"

definition pi02_info :: device_info where
  "pi02_info = \<lparr>info_ip = ''10.0.0.9'', info_url = ''http://10.0.0.9:5000'',
                 info_device_name = JStr ''Unknown Device''\<rparr>"

definition pi01_state :: dashboard where
  "pi01_state = \<lparr>discovered_devices = [(JStr ''pi-01'', pi01_info)],
                  device_health_data = [], recording_state = None\<rparr>"

definition pi01_moved :: dashboard where
  "pi01_moved = \<lparr>discovered_devices = [(JStr ''pi-01'', pi02_info)],
                  device_health_data = [], recording_state = None\<rparr>"

definition two_devices :: dashboard where
  "two_devices =
     \<lparr>discovered_devices = [(JStr ''pi-01'', pi01_info), (JStr ''pi-02'', pi02_info)],
      device_health_data = [], recording_state = None\<rparr>"

text \<open>Probe durations in clock ticks: the first device slow, or every probe fast.\<close>

definition slow_first :: "string \<Rightarrow> nat" where
  "slow_first url = (if url = ''http://10.0.0.5:5000/api/health'' then 3000 else 10)"

definition all_fast :: "string \<Rightarrow> nat" where
  "all_fast url = 10"

text \<open>The listener's store after \<open>pi-01\<close> has been announced.\<close>

definition pi01_announced :: listener where
  "pi01_announced =
     [(''pi-01._ewego._tcp.local.'',
       [(''device_id'', JStr ''pi-01''), (''service_name'', JStr ''EweGo''),
        (''version'', JStr ''1.0''), (''ip'', JStr ''10.0.0.5''), (''port'', JInt 5000),
        (''hostname'', JStr ''pi-01.local'')])]"

text \<open>
  Two addresses that answer with the same identifier \<open>dup\<close>, an earlier network on
  which \<open>dup\<close> answered at \<open>10.0.0.9\<close>, and the candidate found for \<open>dup\<close> at an address.
\<close>

definition dup_net :: network where
  "dup_net url =
     (if url = ''http://10.0.0.5:5000/api/health'' \<or> url = ''http://10.0.0.6:5000/api/health''
      then Response 200 (Some (JObj [(''device_id'', JStr ''dup'')]))
      else Unreachable)"

definition dup_before :: network where
  "dup_before url =
     (if url = ''http://10.0.0.9:5000/api/health''
      then Response 200 (Some (JObj [(''device_id'', JStr ''dup'')]))
      else Unreachable)"

definition dup_at :: "string \<Rightarrow> candidate" where
  "dup_at addr = \<lparr>ip = addr, device_id = JStr ''dup'', device_name = JStr ''Unknown Device'',
                   battery = JStr ''N/A'', gps = JStr ''unknown'', recording = JBool False,
                   network_status = JStr ''unknown''\<rparr>"

text \<open>
  A device at \<open>10.0.0.7\<close> whose body has a \<open>device_name\<close>, no \<open>device_id\<close>, and the
  battery as a number.
\<close>

definition noid_body :: json where
  "noid_body = JObj [(''device_name'', JStr ''RPi CM4 - Sensor System''), (''battery'', JInt 72)]"

definition noid_net :: network where
  "noid_net url =
     (if url = ''http://10.0.0.7:5000/api/health'' then Response 200 (Some noid_body)
      else Unreachable)"

text \<open>
  Hosts with one address for each kind of probe: a prompt success at \<open>10.0.0.5\<close>, status
  500 at \<open>10.0.0.6\<close>, a refused connection at \<open>10.0.0.7\<close>, a response at \<open>10.0.0.9\<close> whose
  second part comes after 5000 ticks, and no connection within 4000 ticks elsewhere; and
  the directory entry stored for an address.
\<close>

definition status_servers :: "string \<Rightarrow> server" where
  "status_servers url =
     (if url = ''http://10.0.0.5:5000/api/health'' then
        Up 20 [(30, ''HTTP/1.1 200 OK''), (40, ''body'')] 200 (Some pi01_body)
      else if url = ''http://10.0.0.6:5000/api/health'' then
        Up 20 [(30, ''HTTP/1.1 500'')] 500 None
      else if url = ''http://10.0.0.7:5000/api/health'' then Down 15
      else if url = ''http://10.0.0.9:5000/api/health'' then
        Up 20 [(30, ''HTTP/1.1 200 OK''), (5000, ''body'')] 200 (Some pi01_body)
      else Down 4000)"

definition info_at :: "string \<Rightarrow> device_info" where
  "info_at addr = \<lparr>info_ip = addr, info_url = ''http://'' @ addr @ '':5000'',
                    info_device_name = JStr ''Unknown Device''\<rparr>"

text \<open>
  Hosts that send a complete response with status 200 slowly: the connection after 400
  ticks, then three parts after 2000 ticks each.
\<close>

definition trickle_servers :: "string \<Rightarrow> server" where
  "trickle_servers url =
     Up 400 [(2000, ''HTTP/1.1 200 OK''), (2000, ''first half''), (2000, ''second half'')]
        200 (Some pi01_body)"

text \<open>
  A network on which the device at \<open>10.0.0.6\<close> reports a list as its identifier.
\<close>

definition odd_net :: network where
  "odd_net url =
     (if url = ''http://10.0.0.5:5000/api/health'' then
        Response 200 (Some (JObj [(''device_id'', JStr ''pi-01'')]))
      else if url = ''http://10.0.0.6:5000/api/health'' then
        Response 200 (Some (JObj [(''device_id'', JArr [JStr ''pi-06''])]))
      else if url = ''http://10.0.0.9:5000/api/health'' then
        Response 200 (Some (JObj [(''device_id'', JStr ''pi-02'')]))
      else Unreachable)"

section \<open>Properties of the dictionary operations\<close>

lemma py_eq_refl: "py_eq k k"
  by (simp add: py_eq_def)

lemma keys_Nil: "keys [] = []"
  by (simp add: keys_def)

lemma keys_Cons: "keys ((k, v) # d) = hkey k # keys d"
  by (simp add: keys_def)

lemma dict_get_dict_set_same: "dict_get (dict_set d k v) k = Some v"
  by (induction d k v rule: dict_set.induct) (auto simp: py_eq_def)

lemma dict_get_dict_set_other:
  "\<not> py_eq k k' \<Longrightarrow> dict_get (dict_set d k v) k' = dict_get d k'"
  by (induction d k v rule: dict_set.induct) (auto simp: py_eq_def)

lemma dict_get_None_iff: "dict_get d k = None \<longleftrightarrow> hkey k \<notin> set (keys d)"
  by (induction d k rule: dict_get.induct) (auto simp: keys_Nil keys_Cons py_eq_def)

lemma set_keys_dict_set: "set (keys (dict_set d k v)) = insert (hkey k) (set (keys d))"
  by (induction d k v rule: dict_set.induct) (auto simp: keys_Nil keys_Cons py_eq_def)

lemma distinct_keys_dict_set: "distinct (keys d) \<Longrightarrow> distinct (keys (dict_set d k v))"
  by (induction d k v rule: dict_set.induct)
    (auto simp: keys_Nil keys_Cons set_keys_dict_set py_eq_def)

lemma filter_key_absent:
  "hkey k \<notin> set (keys d) \<Longrightarrow> filter (\<lambda>(k', v'). py_eq k' k) d = []"
  by (induction d) (auto simp: keys_Cons py_eq_def)

lemma count_key_distinct:
  "distinct (keys d) \<Longrightarrow> dict_get d k = Some v \<Longrightarrow>
   length (filter (\<lambda>(k', v'). py_eq k' k) d) = 1"
  by (induction d k rule: dict_get.induct)
    (auto simp: keys_Cons filter_key_absent [unfolded py_eq_def] py_eq_def)

lemma map_of_delitem: "map_of (delitem d k) = (map_of d)(k := None)"
  by (induction d) (auto simp: delitem_def)

section \<open>Properties of the request\<close>

lemma receive_in_time:
  "\<forall>w \<in> set (map fst parts). \<not> timeout < w \<Longrightarrow>
   receive timeout parts elapsed received code body =
     (Response code body, elapsed + sum_list (map fst parts))"
  by (induction parts arbitrary: elapsed received) auto

lemma receive_late:
  "\<exists>w \<in> set (map fst parts). timeout < w \<Longrightarrow>
   \<exists>partial. fst (receive timeout parts elapsed received code body) = Timeout partial"
proof (induction parts arbitrary: elapsed received)
  case Nil
  then show ?case by simp
next
  case (Cons p parts)
  obtain a b where p: "p = (a, b)" by (cases p)
  show ?case
  proof (cases "timeout < a")
    case True
    with p show ?thesis by simp
  next
    case False
    with Cons.prems p have "\<exists>w \<in> set (map fst parts). timeout < w" by auto
    from Cons.IH [OF this] False p show ?thesis by simp
  qed
qed

lemma requests_get_timed_out:
  assumes "timed_out timeout srv"
  shows "\<exists>partial. fst (requests_get timeout srv) = Timeout partial"
proof (cases srv)
  case (Down w)
  with assms show ?thesis by (simp add: timed_out_def)
next
  case (Up w parts code body)
  show ?thesis
  proof (cases "timeout < w")
    case True
    with Up show ?thesis by simp
  next
    case False
    with assms Up have "\<exists>w \<in> set (map fst parts). timeout < w" by (auto simp: timed_out_def)
    from receive_late [OF this, of w "[]" code body] Up False show ?thesis by simp
  qed
qed

lemma requests_get_up:
  "\<not> timed_out timeout (Up w parts code body) \<Longrightarrow>
   requests_get timeout (Up w parts code body) =
     (Response code body, w + sum_list (map fst parts))"
  by (simp add: timed_out_def receive_in_time)

lemma requests_get_down:
  "\<not> timed_out timeout (Down w) \<Longrightarrow> requests_get timeout (Down w) = (Unreachable, w)"
  by (simp add: timed_out_def)

section \<open>Properties of the merge loop and of the scanner\<close>

lemma distinct_keys_publish: "distinct (keys d) \<Longrightarrow> distinct (keys (publish ds d))"
  by (induction ds arbitrary: d) (auto simp: distinct_keys_dict_set)

lemma set_keys_publish:
  "\<forall>c \<in> set ds. hashable (device_id c) \<Longrightarrow>
   set (keys (publish ds d)) = set (keys d) \<union> (hkey \<circ> device_id) ` set ds"
  by (induction ds arbitrary: d) (auto simp: set_keys_dict_set)

lemma set_keys_publish_applied:
  "set (keys (publish ds d)) =
     set (keys d) \<union> (hkey \<circ> device_id) ` set (takeWhile (hashable \<circ> device_id) ds)"
  by (induction ds arbitrary: d) (auto simp: set_keys_dict_set)

lemma dict_get_publish_other:
  "\<forall>c \<in> set ds. \<not> py_eq (device_id c) k \<Longrightarrow> dict_get (publish ds d) k = dict_get d k"
  by (induction ds arbitrary: d) (auto simp: dict_get_dict_set_other)

lemma publish_append:
  "\<forall>c \<in> set ds. hashable (device_id c) \<Longrightarrow> publish (ds @ ds') d = publish ds' (publish ds d)"
  by (induction ds arbitrary: d) auto

lemma dict_get_publish_last:
  assumes "\<forall>x \<in> set ds. hashable (device_id x)" and "hashable (device_id c)"
    and "\<forall>x \<in> set ds'. \<not> py_eq (device_id x) (device_id c)"
  shows "dict_get (publish (ds @ c # ds') d) (device_id c) =
           Some \<lparr>info_ip = ip c, info_url = ''http://'' @ ip c @ '':5000'',
                 info_device_name = device_name c\<rparr>"
proof -
  have "publish (ds @ c # ds') d = publish ds' (publish [c] (publish ds d))"
    using assms(1,2) by (simp add: publish_append)
  then show ?thesis
    using assms(2,3) by (simp add: dict_get_publish_other dict_get_dict_set_same)
qed


text \<open>
  What \<open>check_device\<close> computes on a decoded dictionary, and which answers it accepts.
\<close>

lemma get_nested_obj:
  "get_nested (JObj kv) outer inner d =
     (if dict_or_absent kv outer then
        Inr (case map_of kv outer of
               Some (JObj sub) \<Rightarrow> (case map_of sub inner of None \<Rightarrow> d | Some v \<Rightarrow> v)
             | _ \<Rightarrow> d)
      else Inl AttributeError)"
  by (simp add: get_nested_def and_then_def dict_or_absent_def split: option.splits json.splits)

lemma device_dict_obj:
  "device_dict a (JObj kv) =
     (if dict_or_absent kv ''battery'' \<and> dict_or_absent kv ''gps'' then
        Inr \<lparr>ip = a,
             device_id = (case map_of kv ''device_id'' of None \<Rightarrow> JStr ''unknown'' | Some v \<Rightarrow> v),
             device_name =
               (case map_of kv ''device_name'' of None \<Rightarrow> JStr ''Unknown Device'' | Some v \<Rightarrow> v),
             battery =
               (case map_of kv ''battery'' of
                  Some (JObj sub) \<Rightarrow> (case map_of sub ''level'' of None \<Rightarrow> JStr ''N/A'' | Some v \<Rightarrow> v)
                | _ \<Rightarrow> JStr ''N/A''),
             gps =
               (case map_of kv ''gps'' of
                  Some (JObj sub) \<Rightarrow> (case map_of sub ''fix'' of None \<Rightarrow> JStr ''unknown'' | Some v \<Rightarrow> v)
                | _ \<Rightarrow> JStr ''unknown''),
             recording = (case map_of kv ''recording'' of None \<Rightarrow> JBool False | Some v \<Rightarrow> v),
             network_status =
               (case map_of kv ''network_status'' of None \<Rightarrow> JStr ''unknown'' | Some v \<Rightarrow> v)\<rparr>
      else Inl AttributeError)"
  by (simp add: device_dict_def get_nested_obj and_then_def)

lemma device_dict_not_obj: "\<forall>kv. data \<noteq> JObj kv \<Longrightarrow> device_dict a data = Inl AttributeError"
  by (cases data) (simp_all add: device_dict_def and_then_def)

lemma has_identity_obj:
  "has_identity (JObj kv) = Inr (''device_id'' \<in> fst ` set kv \<or> ''device_name'' \<in> fst ` set kv)"
  by (simp add: has_identity_def split: bool.splits)

lemma check_device_obj:
  "net (health_url a) = Response 200 (Some (JObj kv)) \<Longrightarrow>
   check_device net a =
     (if (''device_id'' \<in> fst ` set kv \<or> ''device_name'' \<in> fst ` set kv) \<and>
         dict_or_absent kv ''battery'' \<and> dict_or_absent kv ''gps''
      then (case device_dict a (JObj kv) of Inl e \<Rightarrow> None | Inr c \<Rightarrow> Some c) else None)"
  by (simp add: check_device_def has_identity_obj device_dict_obj split: bool.splits)

lemma check_device_not_obj:
  assumes "\<forall>kv. net (health_url a) \<noteq> Response 200 (Some (JObj kv))"
  shows "check_device net a = None"
proof (cases "net (health_url a)")
  case (Response code body)
  show ?thesis
  proof (cases "code = 200")
    case False
    with Response show ?thesis by (simp add: check_device_def)
  next
    case True
    show ?thesis
    proof (cases body)
      case None
      with Response True show ?thesis by (simp add: check_device_def)
    next
      case (Some data)
      with Response True assms have "\<forall>kv. data \<noteq> JObj kv" by auto
      then have "device_dict a data = Inl AttributeError" by (rule device_dict_not_obj)
      with Response True Some show ?thesis
        by (simp add: check_device_def split: sum.splits bool.splits)
    qed
  qed
next
  case Unreachable
  then show ?thesis by (simp add: check_device_def)
next
  case (Timeout partial)
  then show ?thesis by (simp add: check_device_def)
qed

lemma check_device_accepts_iff:
  "check_device net a \<noteq> None \<longleftrightarrow>
     (\<exists>kv. net (health_url a) = Response 200 (Some (JObj kv)) \<and>
           (''device_id'' \<in> fst ` set kv \<or> ''device_name'' \<in> fst ` set kv) \<and>
           dict_or_absent kv ''battery'' \<and> dict_or_absent kv ''gps'')"
proof (cases "\<exists>kv. net (health_url a) = Response 200 (Some (JObj kv))")
  case True
  then obtain kv where kv: "net (health_url a) = Response 200 (Some (JObj kv))" by blast
  show ?thesis
    using check_device_obj [of net a kv] kv by (auto simp: device_dict_obj)
next
  case False
  then have "check_device net a = None" by (simp add: check_device_not_obj)
  with False show ?thesis by blast
qed

lemma check_device_unknown:
  assumes "net (health_url a) = Response 200 (Some (JObj kv))"
    and "''device_id'' \<notin> fst ` set kv" and "''device_name'' \<in> fst ` set kv"
    and "dict_or_absent kv ''battery''" and "dict_or_absent kv ''gps''"
  shows "\<exists>c. check_device net a = Some c \<and> ip c = a \<and> device_id c = JStr ''unknown''"
proof -
  have "map_of kv ''device_id'' = None"
    using assms(2) by (simp add: map_of_eq_None_iff)
  then show ?thesis
    using check_device_obj [of net a kv] assms(1,3-5) by (simp add: device_dict_obj)
qed

lemma check_device_ip: "check_device net a = Some c \<Longrightarrow> ip c = a"
  by (auto simp: check_device_def device_dict_def and_then_def
      split: http_outcome.splits if_splits option.splits sum.splits bool.splits)


lemma set_map_filter_check:
  "c \<in> set (List.map_filter (check_device net) xs) \<Longrightarrow> check_device net (ip c) = Some c"
proof (induction xs)
  case Nil
  then show ?case by (simp add: List.map_filter_simps)
next
  case (Cons a xs)
  show ?case
  proof (cases "check_device net a")
    case None
    with Cons show ?thesis by (simp add: List.map_filter_simps)
  next
    case (Some c')
    then have "ip c' = a" by (rule check_device_ip)
    with Some Cons show ?thesis by (auto simp: List.map_filter_simps)
  qed
qed

lemma collect_dup_net:
  "collect dup_net [''10.0.0.5'', ''10.0.0.7'', ''10.0.0.6''] [] =
     [dup_at ''10.0.0.5'', dup_at ''10.0.0.6'']"
  by (simp add: check_device_def health_url_def dup_net_def has_identity_def
      device_dict_def get_nested_def and_then_def dup_at_def)


section \<open>Properties of the poll loop\<close>

lemma poll_device_clock:
  "fst (poll_device net duration (k, info) (now, h)) = now + duration (poll_url info)"
  by (simp add: Let_def split: http_outcome.splits option.splits)

lemma poll_device_written:
  "\<exists>st da. snd (poll_device net duration (k, info) (now, h)) =
     dict_set h k (observation st da (now + duration (poll_url info)))"
  by (cases "net (poll_url info)") (auto simp: Let_def split: option.splits)

lemma fold_poll_clock:
  "fst (fold (poll_device net duration) xs (now, h)) = now + total_duration duration xs"
proof (induction xs arbitrary: now h)
  case Nil
  then show ?case by (simp add: total_duration_def)
next
  case (Cons x xs)
  obtain k info where x: "x = (k, info)" by (cases x)
  obtain t h' where p: "poll_device net duration (k, info) (now, h) = (t, h')"
    by (cases "poll_device net duration (k, info) (now, h)")
  have "t = now + duration (poll_url info)"
    using poll_device_clock [of net duration k info now h] p by simp
  then show ?case
    using Cons.IH [of t h'] x p by (simp add: total_duration_def)
qed

lemma fold_poll_other:
  "\<forall>x \<in> set xs. \<not> py_eq (fst x) k \<Longrightarrow>
   dict_get (snd (fold (poll_device net duration) xs (now, h))) k = dict_get h k"
proof (induction xs arbitrary: now h)
  case Nil
  then show ?case by simp
next
  case (Cons x xs)
  obtain k' info where x: "x = (k', info)" by (cases x)
  obtain t h' where p: "poll_device net duration (k', info) (now, h) = (t, h')"
    by (cases "poll_device net duration (k', info) (now, h)")
  obtain st da where "h' = dict_set h k' (observation st da (now + duration (poll_url info)))"
    using poll_device_written [of net duration k' info now h] p by auto
  moreover have "\<not> py_eq k' k" using Cons.prems x by simp
  ultimately have "dict_get h' k = dict_get h k" by (simp add: dict_get_dict_set_other)
  moreover have "dict_get (snd (fold (poll_device net duration) xs (t, h'))) k = dict_get h' k"
    using Cons.IH [of t h'] Cons.prems by simp
  ultimately show ?case using x p by simp
qed

lemma distinct_keys_later:
  "distinct (keys (pre @ (k, v) # post)) \<Longrightarrow> \<forall>x \<in> set post. \<not> py_eq (fst x) k"
  by (force simp: keys_def py_eq_def)

lemma fold_poll_at:
  assumes "distinct (keys (pre @ (k, info) # post))"
  shows "\<exists>st da. dict_get (snd (fold (poll_device net duration) (pre @ (k, info) # post) (now, h))) k =
           Some (observation st da (now + total_duration duration (pre @ [(k, info)])))"
proof -
  obtain t h1 where f: "fold (poll_device net duration) pre (now, h) = (t, h1)"
    by (cases "fold (poll_device net duration) pre (now, h)")
  have t: "t = now + total_duration duration pre"
    using fold_poll_clock [of net duration pre now h] f by simp
  obtain t2 h2 where p: "poll_device net duration (k, info) (t, h1) = (t2, h2)"
    by (cases "poll_device net duration (k, info) (t, h1)")
  obtain st da where h2: "h2 = dict_set h1 k (observation st da (t + duration (poll_url info)))"
    using poll_device_written [of net duration k info t h1] p by auto
  have "dict_get (snd (fold (poll_device net duration) post (t2, h2))) k = dict_get h2 k"
    using fold_poll_other [OF distinct_keys_later [OF assms]] .
  then have "dict_get (snd (fold (poll_device net duration) (pre @ (k, info) # post) (now, h))) k =
               Some (observation st da (t + duration (poll_url info)))"
    using f p h2 by (simp add: dict_get_dict_set_same)
  moreover have "t + duration (poll_url info) = now + total_duration duration (pre @ [(k, info)])"
    using t by (simp add: total_duration_def)
  ultimately show ?thesis by auto
qed

section \<open>Devices without an identifier, and the query after a poll\<close>

lemma hkey_unknown: "hkey k = JStr ''unknown'' \<Longrightarrow> k = JStr ''unknown''"
  by (cases k) (auto split: if_splits)

lemma publish_unknown_collapse:
  assumes "\<forall>x \<in> set (ds @ [c]). device_id x = JStr ''unknown''"
  shows "publish (ds @ [c]) [] =
           [(JStr ''unknown'',
             \<lparr>info_ip = ip c, info_url = ''http://'' @ ip c @ '':5000'',
              info_device_name = device_name c\<rparr>)]"
proof -
  let ?d = "publish (ds @ [c]) []"
  have h: "\<forall>x \<in> set (ds @ [c]). hashable (device_id x)" using assms by simp
  have dist: "distinct (keys ?d)" by (rule distinct_keys_publish) (simp add: keys_Nil)
  have ks: "set (keys ?d) = {JStr ''unknown''}"
    using assms by (auto simp: set_keys_publish [OF h] keys_Nil)
  have "length (keys ?d) = 1"
    using dist ks by (metis One_nat_def card.empty card_insert_disjoint distinct_card empty_iff finite.emptyI)
  then have "length ?d = 1" by (simp add: keys_def)
  then obtain k v where kv: "?d = [(k, v)]"
    by (cases ?d) auto
  have "hkey k = JStr ''unknown''" using ks kv by (simp add: keys_def)
  then have k: "k = JStr ''unknown''" by (rule hkey_unknown)
  have "dict_get ?d (device_id c) =
          Some \<lparr>info_ip = ip c, info_url = ''http://'' @ ip c @ '':5000'',
                info_device_name = device_name c\<rparr>"
    using dict_get_publish_last [of ds c "[]" "[]"] h by simp
  then show ?thesis using kv k assms by (simp add: py_eq_def)
qed

lemma get_devices_after_poll_raises:
  assumes "distinct (keys (discovered_devices s))" and "discovered_devices s \<noteq> []"
  shows "get_devices (snd (poll_device_health_step net duration now s)) =
           Inl (KeyError ''last_seen'')"
proof -
  obtain k info rest where xs: "discovered_devices s = (k, info) # rest"
    using assms(2) by (cases "discovered_devices s") auto
  obtain t h' where f:
    "fold (poll_device net duration) (discovered_devices s) (now, device_health_data s) = (t, h')"
    by (cases "fold (poll_device net duration) (discovered_devices s) (now, device_health_data s)")
  have d: "distinct (keys ([] @ (k, info) # rest))" using assms(1) xs by simp
  obtain st da where "dict_get h' k =
      Some (observation st da (now + total_duration duration ([] @ [(k, info)])))"
    using fold_poll_at [OF d, of net duration now "device_health_data s"] f xs by auto
  then have "device_entry h' (k, info) = Inl (KeyError ''last_seen'')"
    by (simp add: observation_def subscript_def and_then_def)
  then show ?thesis
    using f xs by (simp add: get_devices_def poll_device_health_step_def)
qed

section \<open>The fleet query after a poll\<close>

text \<open>
  Claim C1. The fleet query is to return a snapshot for every directory state, with a
  well-formed entry carrying the observation's timestamp for every device that has a
  recorded health observation. The poller stores the timestamp under \<open>last_updated\<close>,
  while \<open>get_devices\<close> reads \<open>last_seen\<close>: once the device \<open>pi-01\<close> of the directory has been
  polled, the query raises \<open>KeyError\<close> instead of returning a snapshot.
\<close>

theorem get_devices_raises_after_poll:
  "get_devices (snd (poll_device_health_step pi01_net all_fast 100 pi01_state)) =
     Inl (KeyError ''last_seen'')"
  by (simp add: get_devices_def poll_device_health_step_def pi01_state_def pi01_info_def
      pi01_net_def poll_url_def observation_def py_eq_def and_then_def subscript_def
      pi01_body_def all_fast_def)

section \<open>The discovery publish step\<close>

text \<open>
  Claim C2, as amended. A publish step clears the directory and then stores the
  candidates of the new scan that precede the first candidate whose identifier is
  unhashable (all of them when every identifier is hashable): the identifiers in the
  directory afterwards are exactly those of the candidates stored, whatever the directory
  held before, and the recorded health observations are left untouched.
\<close>

theorem scan_step_replaces_directory:
  "set (keys (discovered_devices (scan_for_devices_step net hosts completed s))) =
     (hkey \<circ> device_id) ` set (takeWhile (hashable \<circ> device_id) (collect net completed [])) \<and>
   device_health_data (scan_for_devices_step net hosts completed s) = device_health_data s"
  by (simp add: scan_for_devices_step_def scan_network_def set_keys_publish_applied keys_Nil)

theorem scan_step_replaces_directory_witness:
  "set (keys (discovered_devices
     (scan_for_devices_step fleet_net [''10.0.0.5'', ''10.0.0.9''] [''10.0.0.9'', ''10.0.0.5'']
        pi01_moved))) = {JStr ''pi-01'', JStr ''pi-02''} \<and>
   set (keys (discovered_devices
     (scan_for_devices_step odd_net [''10.0.0.5'', ''10.0.0.6'', ''10.0.0.9'']
        [''10.0.0.5'', ''10.0.0.6'', ''10.0.0.9''] two_devices))) = {JStr ''pi-01''} \<and>
   device_health_data
     (scan_for_devices_step fleet_net [''10.0.0.5'', ''10.0.0.9''] [''10.0.0.9'', ''10.0.0.5'']
        pi01_moved) = device_health_data pi01_moved"
proof -
  have c: "map device_id (collect fleet_net [''10.0.0.9'', ''10.0.0.5''] []) =
             [JStr ''pi-02'', JStr ''pi-01'']"
    by (simp add: check_device_def health_url_def fleet_net_def has_identity_def
        device_dict_def get_nested_def and_then_def)
  have o: "map device_id (collect odd_net [''10.0.0.5'', ''10.0.0.6'', ''10.0.0.9''] []) =
             [JStr ''pi-01'', JArr [JStr ''pi-06''], JStr ''pi-02'']"
    by (simp add: check_device_def health_url_def odd_net_def has_identity_def
        device_dict_def get_nested_def and_then_def)
  have tw: "(hkey \<circ> device_id) ` set (takeWhile (hashable \<circ> device_id) xs) =
            set (map hkey (takeWhile hashable (map device_id xs)))" for xs :: "candidate list"
    by (simp add: takeWhile_map image_comp)
  note r1 = scan_step_replaces_directory [of fleet_net "[''10.0.0.5'', ''10.0.0.9'']"
      "[''10.0.0.9'', ''10.0.0.5'']" pi01_moved]
  note r2 = scan_step_replaces_directory [of odd_net "[''10.0.0.5'', ''10.0.0.6'', ''10.0.0.9'']"
      "[''10.0.0.5'', ''10.0.0.6'', ''10.0.0.9'']" two_devices]
  show ?thesis using r1 r2 unfolding tw c o by (simp add: insert_commute)
qed

text \<open>
  The claim as stated fails: \<open>pi-01\<close> is in the directory, a scan finds no device, and the
  publish step leaves the directory empty.
\<close>

theorem scan_step_deletes_absent_counterexample:
  "dict_get (discovered_devices pi01_state) (JStr ''pi-01'') = Some pi01_info \<and>
   scan_network silent_net [''10.0.0.5'', ''10.0.0.6''] 50 [''10.0.0.6'', ''10.0.0.5''] = Inr [] \<and>
   discovered_devices
     (scan_for_devices_step silent_net [''10.0.0.5'', ''10.0.0.6''] [''10.0.0.6'', ''10.0.0.5'']
        pi01_state) = []"
  by (simp add: scan_for_devices_step_def scan_network_def check_device_def silent_net_def
      pi01_state_def py_eq_def)

section \<open>The toggle-recording route\<close>

text \<open>
  Claim C7, as amended. The handler does not consult the directory and does not use the
  device identifier: it leaves the directory and the health observations as they are,
  its outcome is the same for every identifier and for every two states that agree on
  the recording flag, and when the flag is bound it stores the negated flag and reports
  it with the matching message.
\<close>

theorem toggle_recording_flips_flag_only:
  "discovered_devices (snd (toggle_recording did s)) = discovered_devices s \<and>
   device_health_data (snd (toggle_recording did s)) = device_health_data s \<and>
   (recording_state s' = recording_state s \<longrightarrow>
      fst (toggle_recording did' s') = fst (toggle_recording did s)) \<and>
   (recording_state s = Some b \<longrightarrow>
      fst (toggle_recording did s) =
        Inr (JObj [(''recording'', JBool (\<not> b)),
                   (''message'', JStr (if b then ''Recording stopped''
                                       else ''Recording started''))]) \<and>
      recording_state (snd (toggle_recording did s)) = Some (\<not> b))"
  by (auto simp: toggle_recording_def split: option.splits)

theorem toggle_recording_flips_flag_only_witness:
  "fst (toggle_recording ''pi-02'' (two_devices\<lparr>recording_state := Some False\<rparr>)) =
     fst (toggle_recording ''pi-01'' (pi01_state\<lparr>recording_state := Some False\<rparr>)) \<and>
   fst (toggle_recording ''pi-01'' (pi01_state\<lparr>recording_state := Some False\<rparr>)) =
     Inr (JObj [(''recording'', JBool True), (''message'', JStr ''Recording started'')]) \<and>
   recording_state (snd (toggle_recording ''pi-01'' (pi01_state\<lparr>recording_state := Some False\<rparr>))) =
     Some True \<and>
   discovered_devices (snd (toggle_recording ''pi-01'' (pi01_state\<lparr>recording_state := Some False\<rparr>))) =
     discovered_devices pi01_state"
proof -
  have e: "recording_state (two_devices\<lparr>recording_state := Some False\<rparr>) =
           recording_state (pi01_state\<lparr>recording_state := Some False\<rparr>)" by simp
  have b: "recording_state (pi01_state\<lparr>recording_state := Some False\<rparr>) = Some False" by simp
  note r = toggle_recording_flips_flag_only [where did = "''pi-01''" and did' = "''pi-02''"
      and s = "pi01_state\<lparr>recording_state := Some False\<rparr>"
      and s' = "two_devices\<lparr>recording_state := Some False\<rparr>" and b = False]
  from r e b show ?thesis by simp
qed

text \<open>
  The claim as stated fails: the directory resolves \<open>pi-01\<close> to one base URL in the first
  state and to another in the second, and the handler does the same in both. With the
  module as it is imported it raises \<open>NameError\<close>; with the flag bound it answers alike.
\<close>

theorem toggle_recording_no_lookup_counterexample:
  "dict_get (discovered_devices pi01_state) (JStr ''pi-01'') = Some pi01_info \<and>
   dict_get (discovered_devices pi01_moved) (JStr ''pi-01'') = Some pi02_info \<and>
   info_url pi01_info \<noteq> info_url pi02_info \<and>
   toggle_recording ''pi-01'' pi01_state = (Inl (NameError ''recording_state''), pi01_state) \<and>
   toggle_recording ''pi-01'' pi01_moved = (Inl (NameError ''recording_state''), pi01_moved) \<and>
   fst (toggle_recording ''pi-01'' (pi01_state\<lparr>recording_state := Some False\<rparr>)) =
   fst (toggle_recording ''pi-01'' (pi01_moved\<lparr>recording_state := Some False\<rparr>))"
  by (simp add: toggle_recording_def pi01_state_def pi01_moved_def pi01_info_def pi02_info_def
      py_eq_def)

section \<open>The announcement listener\<close>

text \<open>
  Claim C9, as amended. A removal event deletes the entry of the named service from the
  listener's store at once and leaves every other entry as it is.
\<close>

theorem remove_service_deletes:
  "map_of (remove_service devices name) = (map_of devices)(name := None)"
proof (cases "name \<in> set (map fst devices)")
  case True
  then show ?thesis by (simp add: remove_service_def map_of_delitem)
next
  case False
  then have "map_of devices name = None" by (simp add: map_of_eq_None_iff)
  then have "(map_of devices)(name := None) = map_of devices" by (simp add: fun_upd_idem_iff)
  with False show ?thesis by (simp add: remove_service_def)
qed

text \<open>
  The claim as stated fails: \<open>pi-01\<close> is known to the listener, and after its removal
  event the store is empty.
\<close>

theorem remove_service_evicts_counterexample:
  "map_of pi01_announced ''pi-01._ewego._tcp.local.'' \<noteq> None \<and>
   remove_service pi01_announced ''pi-01._ewego._tcp.local.'' = []"
  by (simp add: pi01_announced_def remove_service_def delitem_def)

section \<open>The poll cycle\<close>

text \<open>
  Claim C3, as amended. Within one poll cycle the probes are issued one after the other,
  in the order of the snapshot. The snapshot is a dictionary, so its identifiers are
  distinct; then the observation of the device at position \<open>i\<close> is written once the
  probes of the devices at positions \<open>0\<close> to \<open>i\<close> have all returned or failed: its
  \<open>last_updated\<close> is the start of the cycle plus the sum of those probe durations. Every
  device of the snapshot gets its observation, and the cycle ends after the sum of all
  probe durations.
\<close>

theorem poll_cycle_is_sequential:
  assumes "distinct (keys (discovered_devices s))" and "i < length (discovered_devices s)"
  shows "(\<exists>st da.
            dict_get (device_health_data (snd (poll_device_health_step net duration now s)))
              (fst (discovered_devices s ! i)) =
            Some [(''status'', JStr st), (''data'', da),
                  (''last_updated'',
                   JInt (int (now + total_duration duration
                                      (take (Suc i) (discovered_devices s)))))]) \<and>
         fst (poll_device_health_step net duration now s) =
           now + total_duration duration (discovered_devices s)"
proof -
  let ?xs = "discovered_devices s"
  obtain k info where ki: "?xs ! i = (k, info)" by (cases "?xs ! i")
  have split: "?xs = take i ?xs @ (k, info) # drop (Suc i) ?xs"
    using assms(2) ki by (metis id_take_nth_drop)
  have tk: "take (Suc i) ?xs = take i ?xs @ [(k, info)]"
    using assms(2) ki by (simp add: take_Suc_conv_app_nth)
  have d: "distinct (keys (take i ?xs @ (k, info) # drop (Suc i) ?xs))"
    using assms(1) split by simp
  obtain t h' where f: "fold (poll_device net duration) ?xs (now, device_health_data s) = (t, h')"
    by (cases "fold (poll_device net duration) ?xs (now, device_health_data s)")
  have "\<exists>st da. dict_get (snd (fold (poll_device net duration) ?xs (now, device_health_data s))) k =
           Some (observation st da (now + total_duration duration (take (Suc i) ?xs)))"
    using fold_poll_at [OF d, of net duration now "device_health_data s"] split tk by simp
  moreover have "t = now + total_duration duration ?xs"
    using fold_poll_clock [of net duration ?xs now "device_health_data s"] f by simp
  ultimately show ?thesis
    using f ki by (simp add: poll_device_health_step_def observation_def)
qed

theorem poll_cycle_is_sequential_witness:
  "dict_get (device_health_data (snd (poll_device_health_step pi01_net slow_first 0 two_devices)))
     (JStr ''pi-02'') =
     Some [(''status'', JStr ''offline''), (''data'', JNull), (''last_updated'', JInt 3010)] \<and>
   fst (poll_device_health_step pi01_net slow_first 0 two_devices) = 3010"
proof -
  have d: "distinct (keys (discovered_devices two_devices))"
    by (simp add: two_devices_def keys_def)
  have i: "1 < length (discovered_devices two_devices)"
    by (simp add: two_devices_def)
  note r = poll_cycle_is_sequential [OF d i, of pi01_net slow_first 0]
  show ?thesis
    using r by (simp add: poll_device_health_step_def two_devices_def pi01_info_def pi02_info_def
        pi01_net_def slow_first_def poll_url_def py_eq_def observation_def pi01_body_def)
qed

text \<open>
  The claim as stated fails: with the same probe of \<open>pi-02\<close>, its observation is written
  at tick 3010 when the probe of \<open>pi-01\<close> takes 3000 ticks and at tick 20 when it takes 10.
\<close>

theorem slow_probe_delays_next_write_counterexample:
  "dict_get (device_health_data (snd (poll_device_health_step pi01_net slow_first 0 two_devices)))
     (JStr ''pi-02'') =
     Some [(''status'', JStr ''offline''), (''data'', JNull), (''last_updated'', JInt 3010)] \<and>
   dict_get (device_health_data (snd (poll_device_health_step pi01_net all_fast 0 two_devices)))
     (JStr ''pi-02'') =
     Some [(''status'', JStr ''offline''), (''data'', JNull), (''last_updated'', JInt 20)] \<and>
   slow_first (poll_url pi02_info) = all_fast (poll_url pi02_info)"
  by (simp add: poll_device_health_step_def two_devices_def pi01_info_def pi02_info_def
      pi01_net_def slow_first_def all_fast_def poll_url_def py_eq_def observation_def pi01_body_def)

section \<open>The observation recorded by one poll\<close>

text \<open>
  Claim C4, as amended. A probe times out when the wait for the connection or for the
  next part of the response exceeds the timeout of 3000 ticks. A probe that does not
  time out and gets status 200 with a body that parses is recorded \<open>online\<close> with the
  decoded body as payload; one that does not time out and gets another status is
  recorded \<open>error\<close> with a null payload; a refused connection is recorded \<open>offline\<close> with a
  null payload; and a probe that times out is recorded \<open>offline\<close> with a null payload,
  whatever parts, status and body the host would have sent. Each observation is stamped
  with the time at which the probe ended.
\<close>

theorem poll_device_classification:
  "(servers (poll_url info) = Up w parts 200 (Some body) \<and>
    \<not> timed_out poll_timeout (servers (poll_url info)) \<longrightarrow>
      recorded servers did info now health =
        Some [(''status'', JStr ''online''), (''data'', body),
              (''last_updated'', JInt (int (now + w + sum_list (map fst parts))))]) \<and>
   (servers (poll_url info) = Up w parts code b \<and> code \<noteq> 200 \<and>
    \<not> timed_out poll_timeout (servers (poll_url info)) \<longrightarrow>
      recorded servers did info now health =
        Some [(''status'', JStr ''error''), (''data'', JNull),
              (''last_updated'', JInt (int (now + w + sum_list (map fst parts))))]) \<and>
   (servers (poll_url info) = Down w \<and>
    \<not> timed_out poll_timeout (servers (poll_url info)) \<longrightarrow>
      recorded servers did info now health =
        Some [(''status'', JStr ''offline''), (''data'', JNull),
              (''last_updated'', JInt (int (now + w)))]) \<and>
   (timed_out poll_timeout (servers (poll_url info)) \<longrightarrow>
      recorded servers did info now health =
        Some [(''status'', JStr ''offline''), (''data'', JNull),
              (''last_updated'', JInt (int (now + probe_duration servers (poll_url info))))])"
proof -
  let ?u = "poll_url info"
  have online: "recorded servers did info now health =
        Some [(''status'', JStr ''online''), (''data'', body),
              (''last_updated'', JInt (int (now + w + sum_list (map fst parts))))]"
    if "servers ?u = Up w parts 200 (Some body)" "\<not> timed_out poll_timeout (servers ?u)"
    using that requests_get_up [of poll_timeout w parts 200 "Some body"]
    by (simp add: recorded_def probe_outcome_def probe_duration_def Let_def
        dict_get_dict_set_same observation_def)
  have err: "recorded servers did info now health =
        Some [(''status'', JStr ''error''), (''data'', JNull),
              (''last_updated'', JInt (int (now + w + sum_list (map fst parts))))]"
    if "servers ?u = Up w parts code b" "code \<noteq> 200" "\<not> timed_out poll_timeout (servers ?u)"
    using that requests_get_up [of poll_timeout w parts code b]
    by (simp add: recorded_def probe_outcome_def probe_duration_def Let_def
        dict_get_dict_set_same observation_def)
  have down: "recorded servers did info now health =
        Some [(''status'', JStr ''offline''), (''data'', JNull),
              (''last_updated'', JInt (int (now + w)))]"
    if "servers ?u = Down w" "\<not> timed_out poll_timeout (servers ?u)"
    using that requests_get_down [of poll_timeout w]
    by (simp add: recorded_def probe_outcome_def probe_duration_def Let_def
        dict_get_dict_set_same observation_def)
  have late: "recorded servers did info now health =
        Some [(''status'', JStr ''offline''), (''data'', JNull),
              (''last_updated'', JInt (int (now + probe_duration servers ?u)))]"
    if t: "timed_out poll_timeout (servers ?u)"
  proof -
    obtain partial where "probe_outcome servers ?u = Timeout partial"
      using requests_get_timed_out [OF t] by (auto simp: probe_outcome_def)
    then show ?thesis
      by (simp add: recorded_def Let_def dict_get_dict_set_same observation_def)
  qed
  from online err down late show ?thesis by blast
qed

theorem poll_device_classification_witness:
  "recorded status_servers (JStr ''pi-01'') (info_at ''10.0.0.5'') 100 [] =
     Some [(''status'', JStr ''online''), (''data'', pi01_body), (''last_updated'', JInt 190)] \<and>
   recorded status_servers (JStr ''pi-06'') (info_at ''10.0.0.6'') 100 [] =
     Some [(''status'', JStr ''error''), (''data'', JNull), (''last_updated'', JInt 150)] \<and>
   recorded status_servers (JStr ''pi-07'') (info_at ''10.0.0.7'') 100 [] =
     Some [(''status'', JStr ''offline''), (''data'', JNull), (''last_updated'', JInt 115)] \<and>
   recorded status_servers (JStr ''pi-09'') (info_at ''10.0.0.9'') 100 [] =
     Some [(''status'', JStr ''offline''), (''data'', JNull), (''last_updated'', JInt 3150)]"
proof -
  have u5: "status_servers (poll_url (info_at ''10.0.0.5'')) =
              Up 20 [(30, ''HTTP/1.1 200 OK''), (40, ''body'')] 200 (Some pi01_body)"
    by (simp add: status_servers_def poll_url_def info_at_def)
  have u6: "status_servers (poll_url (info_at ''10.0.0.6'')) = Up 20 [(30, ''HTTP/1.1 500'')] 500 None"
    by (simp add: status_servers_def poll_url_def info_at_def)
  have u7: "status_servers (poll_url (info_at ''10.0.0.7'')) = Down 15"
    by (simp add: status_servers_def poll_url_def info_at_def)
  have u9: "status_servers (poll_url (info_at ''10.0.0.9'')) =
              Up 20 [(30, ''HTTP/1.1 200 OK''), (5000, ''body'')] 200 (Some pi01_body)"
    by (simp add: status_servers_def poll_url_def info_at_def)
  have t5: "\<not> timed_out poll_timeout (status_servers (poll_url (info_at ''10.0.0.5'')))"
    unfolding u5 by (simp add: timed_out_def poll_timeout_def)
  have t6: "\<not> timed_out poll_timeout (status_servers (poll_url (info_at ''10.0.0.6'')))"
    unfolding u6 by (simp add: timed_out_def poll_timeout_def)
  have t7: "\<not> timed_out poll_timeout (status_servers (poll_url (info_at ''10.0.0.7'')))"
    unfolding u7 by (simp add: timed_out_def poll_timeout_def)
  have t9: "timed_out poll_timeout (status_servers (poll_url (info_at ''10.0.0.9'')))"
    unfolding u9 by (simp add: timed_out_def poll_timeout_def)
  have d9: "probe_duration status_servers (poll_url (info_at ''10.0.0.9'')) = 3050"
    unfolding probe_duration_def u9 by (simp add: poll_timeout_def)
  note c = poll_device_classification [where servers = status_servers and now = 100
      and health = "[]"]
  have "recorded status_servers (JStr ''pi-01'') (info_at ''10.0.0.5'') 100 [] =
     Some [(''status'', JStr ''online''), (''data'', pi01_body), (''last_updated'', JInt 190)]"
    using c [where info = "info_at ''10.0.0.5''" and did = "JStr ''pi-01''" and w = 20
        and parts = "[(30, ''HTTP/1.1 200 OK''), (40, ''body'')]" and body = pi01_body]
      u5 t5 by simp
  moreover have "recorded status_servers (JStr ''pi-06'') (info_at ''10.0.0.6'') 100 [] =
     Some [(''status'', JStr ''error''), (''data'', JNull), (''last_updated'', JInt 150)]"
    using c [where info = "info_at ''10.0.0.6''" and did = "JStr ''pi-06''" and w = 20
        and parts = "[(30, ''HTTP/1.1 500'')]" and code = 500 and b = None]
      u6 t6 by simp
  moreover have "recorded status_servers (JStr ''pi-07'') (info_at ''10.0.0.7'') 100 [] =
     Some [(''status'', JStr ''offline''), (''data'', JNull), (''last_updated'', JInt 115)]"
    using c [where info = "info_at ''10.0.0.7''" and did = "JStr ''pi-07''" and w = 15]
      u7 t7 by simp
  moreover have "recorded status_servers (JStr ''pi-09'') (info_at ''10.0.0.9'') 100 [] =
     Some [(''status'', JStr ''offline''), (''data'', JNull), (''last_updated'', JInt 3150)]"
    using c [where info = "info_at ''10.0.0.9''" and did = "JStr ''pi-09''"]
      t9 d9 by simp
  ultimately show ?thesis by blast
qed

text \<open>
  The claim as stated fails: the timeout does not bound the duration of a probe. The
  response below arrives in parts, none later than 2000 ticks after the one before; the
  probe takes 6400 ticks, more than the timeout, and is recorded \<open>online\<close>.
\<close>

theorem slow_response_recorded_online_counterexample:
  "poll_timeout = 3000 \<and>
   probe_duration trickle_servers (poll_url pi01_info) = 6400 \<and>
   recorded trickle_servers (JStr ''pi-01'') pi01_info 0 [] =
     Some [(''status'', JStr ''online''), (''data'', pi01_body), (''last_updated'', JInt 6400)]"
  by (simp add: recorded_def probe_outcome_def probe_duration_def trickle_servers_def
      poll_timeout_def observation_def py_eq_def)

section \<open>Uniqueness of directory entries\<close>

text \<open>
  Claim C5. After every publish step, from any earlier state of the directory (such as
  the one left by an earlier cycle that stored the same identifier at another address),
  no two entries of the directory have the same identifier; and when the scan's
  candidates are \<open>ds @ c # ds'\<close>, with \<open>c\<close> the last candidate that carries its identifier,
  the directory holds exactly one entry for that identifier, with the address of \<open>c\<close>.
\<close>

theorem directory_unique_latest_address:
  "distinct (keys (discovered_devices (scan_for_devices_step net hosts completed s))) \<and>
   (collect net completed [] = ds @ c # ds' \<and>
    (\<forall>x \<in> set ds. hashable (device_id x)) \<and> hashable (device_id c) \<and>
    (\<forall>x \<in> set ds'. \<not> py_eq (device_id x) (device_id c)) \<longrightarrow>
      dict_get (discovered_devices (scan_for_devices_step net hosts completed s)) (device_id c) =
        Some \<lparr>info_ip = ip c, info_url = ''http://'' @ ip c @ '':5000'',
              info_device_name = device_name c\<rparr> \<and>
      length (filter (\<lambda>(k, v). py_eq k (device_id c))
                (discovered_devices (scan_for_devices_step net hosts completed s))) = 1)"
proof -
  let ?d = "discovered_devices (scan_for_devices_step net hosts completed s)"
  have d: "?d = publish (collect net completed []) []"
    by (simp add: scan_for_devices_step_def scan_network_def)
  have u: "distinct (keys ?d)"
    unfolding d by (rule distinct_keys_publish) (simp add: keys_Nil)
  have "dict_get ?d (device_id c) =
          Some \<lparr>info_ip = ip c, info_url = ''http://'' @ ip c @ '':5000'',
                info_device_name = device_name c\<rparr> \<and>
        length (filter (\<lambda>(k, v). py_eq k (device_id c)) ?d) = 1"
    if c: "collect net completed [] = ds @ c # ds'"
      and h: "\<forall>x \<in> set ds. hashable (device_id x)" "hashable (device_id c)"
      and l: "\<forall>x \<in> set ds'. \<not> py_eq (device_id x) (device_id c)"
  proof -
    have g: "dict_get ?d (device_id c) =
          Some \<lparr>info_ip = ip c, info_url = ''http://'' @ ip c @ '':5000'',
                info_device_name = device_name c\<rparr>"
      unfolding d c by (rule dict_get_publish_last [OF h l])
    from count_key_distinct [OF u g] g show ?thesis by simp
  qed
  with u show ?thesis by blast
qed

theorem directory_unique_latest_address_witness:
  "dict_get (discovered_devices
       (scan_for_devices_step dup_before [''10.0.0.9''] [''10.0.0.9''] pi01_state))
     (JStr ''dup'') =
     Some \<lparr>info_ip = ''10.0.0.9'', info_url = ''http://10.0.0.9:5000'',
           info_device_name = JStr ''Unknown Device''\<rparr> \<and>
   dict_get (discovered_devices
       (scan_for_devices_step dup_net [''10.0.0.5'', ''10.0.0.6'', ''10.0.0.7'']
          [''10.0.0.5'', ''10.0.0.7'', ''10.0.0.6'']
          (scan_for_devices_step dup_before [''10.0.0.9''] [''10.0.0.9''] pi01_state)))
     (JStr ''dup'') =
     Some \<lparr>info_ip = ''10.0.0.6'', info_url = ''http://10.0.0.6:5000'',
           info_device_name = JStr ''Unknown Device''\<rparr> \<and>
   length (filter (\<lambda>(k, v). py_eq k (JStr ''dup''))
     (discovered_devices
       (scan_for_devices_step dup_net [''10.0.0.5'', ''10.0.0.6'', ''10.0.0.7'']
          [''10.0.0.5'', ''10.0.0.7'', ''10.0.0.6'']
          (scan_for_devices_step dup_before [''10.0.0.9''] [''10.0.0.9''] pi01_state)))) = 1"
proof -
  have c: "collect dup_net [''10.0.0.5'', ''10.0.0.7'', ''10.0.0.6''] [] =
             [dup_at ''10.0.0.5''] @ dup_at ''10.0.0.6'' # []"
    using collect_dup_net by simp
  have h: "\<forall>x \<in> set [dup_at ''10.0.0.5'']. hashable (device_id x)"
    by (simp add: dup_at_def)
  have hc: "hashable (device_id (dup_at ''10.0.0.6''))"
    by (simp add: dup_at_def)
  have l: "\<forall>x \<in> set []. \<not> py_eq (device_id x) (device_id (dup_at ''10.0.0.6''))"
    by simp
  have first: "dict_get (discovered_devices
       (scan_for_devices_step dup_before [''10.0.0.9''] [''10.0.0.9''] pi01_state))
     (JStr ''dup'') =
     Some \<lparr>info_ip = ''10.0.0.9'', info_url = ''http://10.0.0.9:5000'',
           info_device_name = JStr ''Unknown Device''\<rparr>"
    by (simp add: scan_for_devices_step_def scan_network_def check_device_def health_url_def
        dup_before_def has_identity_def device_dict_def get_nested_def and_then_def py_eq_def)
  note r = directory_unique_latest_address [where net = dup_net
      and hosts = "[''10.0.0.5'', ''10.0.0.6'', ''10.0.0.7'']"
      and completed = "[''10.0.0.5'', ''10.0.0.7'', ''10.0.0.6'']"
      and s = "scan_for_devices_step dup_before [''10.0.0.9''] [''10.0.0.9''] pi01_state"
      and ds = "[dup_at ''10.0.0.5'']" and c = "dup_at ''10.0.0.6''" and ds' = "[]"]
  from r c h hc l first show ?thesis
    by (simp add: dup_at_def)
qed

section \<open>The result of a scan\<close>




text \<open>
  Claim C8. The scanner is to return a candidate for every address that answers with
  status 200 and a body containing an identity field. The body
  \<open>{"device_id": "pi-01", "battery": 72}\<close> passes the identity test, but reading the
  battery level calls \<open>get\<close> on the number 72, the exception is swallowed, and the scan
  returns no candidate for \<open>10.0.0.5\<close>.
\<close>

theorem scan_network_omits_scalar_battery:
  "has_identity pi01_body = Inr True \<and>
   pi01_net (health_url ''10.0.0.5'') = Response 200 (Some pi01_body) \<and>
   scan_network pi01_net [''10.0.0.5'', ''10.0.0.6''] 50 [''10.0.0.6'', ''10.0.0.5''] = Inr []"
  by (simp add: scan_network_def check_device_def health_url_def pi01_net_def pi01_body_def
      has_identity_def device_dict_def get_nested_def and_then_def)

text \<open>
  Claim C10. A device whose body has a \<open>device_name\<close> and no \<open>device_id\<close> is to be recorded
  under the identifier \<open>unknown\<close>. With the battery reported as a number the same
  swallowed exception makes \<open>check_device\<close> return \<open>None\<close>, and the device is not recorded
  at all.
\<close>

theorem check_device_drops_nameless_scalar_battery:
  "py_in ''device_id'' noid_body = Inr False \<and>
   py_in ''device_name'' noid_body = Inr True \<and>
   noid_net (health_url ''10.0.0.7'') = Response 200 (Some noid_body) \<and>
   check_device noid_net ''10.0.0.7'' = None \<and>
   discovered_devices (scan_for_devices_step noid_net [''10.0.0.7''] [''10.0.0.7''] pi01_state) = []"
  by (simp add: scan_for_devices_step_def scan_network_def check_device_def health_url_def
      noid_net_def noid_body_def has_identity_def device_dict_def get_nested_def and_then_def)

end
